theory Spec2Isabelle
  imports Main "HOL-Library.Word"
begin

section \<open>Thread entrypoint of the shield runtime (src/entrypoint/thread_init.c)\<close>

text \<open>
  The file defines the stack-protector canary \<open>__stack_chk_guard\<close>, the handler
  \<open>__stack_chk_fail\<close> in two architecture variants, and the thread entrypoint
  \<open>_start\<close>. Names lose their leading underscores, which an Isabelle identifier
  cannot carry.
\<close>

subsection \<open>Data\<close>

type_synonym u32 = "32 word"

text \<open>A C \<open>int\<close> of the 32-bit target: the same 32 bits, read with \<open>sint\<close>.\<close>

type_synonym i32 = "32 word"

text \<open>
  The memory the thread runs on: the global \<open>uint32_t __stack_chk_guard\<close> (line 18) and,
  in \<open>world\<close>, everything else. The guard is an ordinary exported global, so the
  external functions receive and return the whole memory.
\<close>

record 'w mem =
  stack_chk_guard :: u32
  world :: 'w

text \<open>\<open>uint32_t __stack_chk_guard = 0;\<close>: the value the image is loaded with.\<close>

definition image_load :: "'w \<Rightarrow> 'w mem" where
  "image_load w = \<lparr>stack_chk_guard = 0, world = w\<rparr>"

text \<open>
  What a call of an external function compiled with stack protection can do: return a
  value and a memory, fail the canary comparison of an epilogue (control then goes to
  \<open>__stack_chk_fail\<close>, never back to the caller), or not come back at all (it loops, or
  ends the thread by itself).
\<close>

datatype ('a, 'w) reply =
    Returns 'a "'w mem"
  | Smashed "'w mem"
  | Never

text \<open>
  The functions and constants that thread_init.c uses and does not define:
  \<open>SYSCALL_EXIT\<close> and \<open>__sys_exit\<close> of uapi.h, \<open>__libc_init\<close> of libc_init.h,
  \<open>__shield_rand_set_seed\<close> of rand.h, the user's \<open>main\<close>, and the kernel behind the
  \<open>svc\<close> instruction. Of the kernel only one bit matters here: whether the thread is
  resumed after the call.
\<close>

record 'w env =
  SYSCALL_EXIT :: nat
  libc_init :: "'w mem \<Rightarrow> (unit, 'w) reply"
  shield_rand_set_seed :: "u32 \<Rightarrow> 'w mem \<Rightarrow> (unit, 'w) reply"
  main :: "'w mem \<Rightarrow> (i32, 'w) reply"
  sys_exit_returns :: "i32 \<Rightarrow> bool"
  svc_returns :: "nat \<Rightarrow> u32 \<Rightarrow> bool"

text \<open>
  The preprocessor symbols the two files test. \<open>CONFIG_WITH_SENTRY\<close> is \<open>None\<close> when
  the macro is not defined; \<open>#if\<close> reads an undefined macro as 0.
\<close>

record config =
  CONFIG_WITH_SENTRY :: "int option"
  arm_lower :: bool
  ARM_upper :: bool

text \<open>
  The trace of a run: one event for each statement with an effect outside the function,
  named after its place in the source. A call event carries the memory the callee is
  entered with.
\<close>

datatype 'w event =
    Store_guard u32
  | Call_libc_init "'w mem"
  | Call_rand_set_seed u32 "'w mem"
  | Call_main "'w mem"
  | Exit_start i32
  | Svc_fail nat u32
  | Exit_fail i32

text \<open>
  How a function ends: the kernel ended the thread inside a call, the function returned
  to its caller, control reached \<open>__builtin_unreachable()\<close> or code the compiler
  assumed dead, or a callee never came back.
\<close>

datatype outcome = Thread_ended | Returned | Undefined_behaviour | No_return

record 'w run =
  trace :: "'w event list"
  outcome :: outcome

subsection \<open>\<open>__stack_chk_fail\<close>\<close>

text \<open>
  Lines 22-31 (\<open>#ifdef __arm__\<close>): \<open>ldr r0, =123UL\<close> then \<open>svc SYSCALL_EXIT\<close>. The
  function is not declared noreturn: were the thread resumed after the \<open>svc\<close>, it would
  return.
\<close>

definition stack_chk_fail_arm :: "'w env \<Rightarrow> 'w mem \<Rightarrow> 'w run" where
  "stack_chk_fail_arm env m =
     (let r0 = 123 in
      \<lparr>trace = [Svc_fail (SYSCALL_EXIT env) r0],
       outcome = (if svc_returns env (SYSCALL_EXIT env) r0 then Returned else Thread_ended)\<rparr>)"

text \<open>Lines 33-39 (\<open>#else\<close>): \<open>__sys_exit(123);\<close>.\<close>

definition stack_chk_fail_portable :: "'w env \<Rightarrow> 'w mem \<Rightarrow> 'w run" where
  "stack_chk_fail_portable env m =
     \<lparr>trace = [Exit_fail 123],
      outcome = (if sys_exit_returns env 123 then Returned else Thread_ended)\<rparr>"

text \<open>The selection of lines 20, 32 and 41.\<close>

definition stack_chk_fail :: "config \<Rightarrow> 'w env \<Rightarrow> 'w mem \<Rightarrow> 'w run" where
  "stack_chk_fail cfg env m =
     (if arm_lower cfg then stack_chk_fail_arm env m else stack_chk_fail_portable env m)"

text \<open>
  include/shield/ssp.h, lines 10-22: a static inline function of the same name, with the
  same two instructions, present only where \<open>__ARM__\<close> is defined.
\<close>

definition ssp_h_stack_chk_fail :: "'w env \<Rightarrow> 'w mem \<Rightarrow> 'w run" where
  "ssp_h_stack_chk_fail env m =
     (let r0 = 123 in
      \<lparr>trace = [Svc_fail (SYSCALL_EXIT env) r0],
       outcome = (if svc_returns env (SYSCALL_EXIT env) r0 then Returned else Thread_ended)\<rparr>)"

definition ssp_h :: "config \<Rightarrow> ('w env \<Rightarrow> 'w mem \<Rightarrow> 'w run) option" where
  "ssp_h cfg = (if ARM_upper cfg then Some ssp_h_stack_chk_fail else None)"

subsection \<open>\<open>_start\<close>\<close>

text \<open>
  The compiler-inserted epilogue check of a protected callee that finds the canary
  changed calls \<open>__stack_chk_fail\<close>. The compiler takes that call not to return, so a
  handler that does return leaves control in code with no defined meaning.
\<close>

definition violation :: "config \<Rightarrow> 'w env \<Rightarrow> 'w event list \<Rightarrow> 'w mem \<Rightarrow> 'w run" where
  "violation cfg env tr m =
     (let r = stack_chk_fail cfg env m in
      \<lparr>trace = tr @ trace r,
       outcome = (if outcome r = Returned then Undefined_behaviour else outcome r)\<rparr>)"

text \<open>
  Lines 53-72, with \<open>CONFIG_WITH_SENTRY\<close> true. \<open>thread_id\<close> is a parameter of the C
  function and so of this one.
\<close>

definition start :: "config \<Rightarrow> 'w env \<Rightarrow> u32 \<Rightarrow> u32 \<Rightarrow> 'w mem \<Rightarrow> 'w run" where
  "start cfg env thread_id seed m0 =
     (let m1 = m0\<lparr>stack_chk_guard := seed\<rparr>;
          t1 = [Store_guard seed, Call_libc_init m1]
      in case libc_init env m1 of
           Never \<Rightarrow> \<lparr>trace = t1, outcome = No_return\<rparr>
         | Smashed mc \<Rightarrow> violation cfg env t1 mc
         | Returns u m2 \<Rightarrow>
             (let t2 = t1 @ [Call_rand_set_seed seed m2]
              in case shield_rand_set_seed env seed m2 of
                   Never \<Rightarrow> \<lparr>trace = t2, outcome = No_return\<rparr>
                 | Smashed mc \<Rightarrow> violation cfg env t2 mc
                 | Returns u' m3 \<Rightarrow>
                     (let t3 = t2 @ [Call_main m3]
                      in case main env m3 of
                           Never \<Rightarrow> \<lparr>trace = t3, outcome = No_return\<rparr>
                         | Smashed mc \<Rightarrow> violation cfg env t3 mc
                         | Returns task_ret m4 \<Rightarrow>
                             \<lparr>trace = t3 @ [Exit_start task_ret],
                              outcome = (if sys_exit_returns env task_ret
                                         then Undefined_behaviour else Thread_ended)\<rparr>)))"

text \<open>
  Lines 65-69: \<open>#if CONFIG_WITH_SENTRY\<close> ... \<open>#else\<close> \<open>#error "no supported backend"\<close>.
  The translation of the file either stops with that error or yields \<open>_start\<close>.
\<close>

datatype build_error = No_supported_backend

definition with_sentry :: "config \<Rightarrow> bool" where
  "with_sentry cfg = (case CONFIG_WITH_SENTRY cfg of None \<Rightarrow> False | Some n \<Rightarrow> n \<noteq> 0)"

definition thread_init_c ::
  "config \<Rightarrow> build_error + ('w env \<Rightarrow> u32 \<Rightarrow> u32 \<Rightarrow> 'w mem \<Rightarrow> 'w run)" where
  "thread_init_c cfg = (if with_sentry cfg then Inr (start cfg) else Inl No_supported_backend)"

subsection \<open>Observations on a run\<close>

text \<open>The store to the guard, and the call of the runtime initializer.\<close>

fun is_store :: "'w event \<Rightarrow> bool" where
  "is_store (Store_guard g) = True"
| "is_store e = False"

fun is_call_libc_init :: "'w event \<Rightarrow> bool" where
  "is_call_libc_init (Call_libc_init m) = True"
| "is_call_libc_init e = False"

text \<open>
  The terminal calls: the exit of line 66 is the normal one, the \<open>svc\<close> of lines 25-29
  and the exit of line 37 are those of the violation handler.
\<close>

fun is_normal_exit :: "'w event \<Rightarrow> bool" where
  "is_normal_exit (Exit_start v) = True"
| "is_normal_exit e = False"

fun is_violation_report :: "'w event \<Rightarrow> bool" where
  "is_violation_report (Svc_fail n r0) = True"
| "is_violation_report (Exit_fail v) = True"
| "is_violation_report e = False"

definition is_terminal :: "'w event \<Rightarrow> bool" where
  "is_terminal e = (is_normal_exit e \<or> is_violation_report e)"

text \<open>
  The position of an event in the sequence of \<open>_start\<close>: the five statements of lines
  59, 60, 61, 63 and 66, and after them the report of the violation handler.
\<close>

fun bootstrap_step :: "'w event \<Rightarrow> nat" where
  "bootstrap_step (Store_guard g) = 1"
| "bootstrap_step (Call_libc_init m) = 2"
| "bootstrap_step (Call_rand_set_seed s m) = 3"
| "bootstrap_step (Call_main m) = 4"
| "bootstrap_step (Exit_start v) = 5"
| "bootstrap_step (Svc_fail n r0) = 6"
| "bootstrap_step (Exit_fail v) = 6"

text \<open>
  The status an event hands to the exit system call: the argument of \<open>__sys_exit\<close>, or
  \<open>r0\<close> at an \<open>svc\<close> whose immediate is \<open>SYSCALL_EXIT\<close>.
\<close>

fun exit_report :: "'w env \<Rightarrow> 'w event \<Rightarrow> i32 option" where
  "exit_report env (Exit_start v) = Some v"
| "exit_report env (Exit_fail v) = Some v"
| "exit_report env (Svc_fail n r0) = (if n = SYSCALL_EXIT env then Some r0 else None)"
| "exit_report env e = None"

definition exit_reports :: "'w env \<Rightarrow> 'w run \<Rightarrow> i32 list" where
  "exit_reports env r = List.map_filter (exit_report env) (trace r)"

text \<open>The kernel resumes the thread after an exit with status \<open>v\<close>, by either way in.\<close>

definition kernel_exit_returns :: "'w env \<Rightarrow> i32 \<Rightarrow> bool" where
  "kernel_exit_returns env v = (sys_exit_returns env v \<or> svc_returns env (SYSCALL_EXIT env) v)"

text \<open>An external function that, when it returns, leaves \<open>__stack_chk_guard\<close> as it found it.\<close>

definition preserves_guard :: "('w mem \<Rightarrow> ('a, 'w) reply) \<Rightarrow> bool" where
  "preserves_guard f = (\<forall>m x m'. f m = Returns x m' \<longrightarrow> stack_chk_guard m' = stack_chk_guard m)"

text \<open>
  The contract of the specification for the violation handler, in the specification's
  words (section 4.1, \<open>on_violation() -> never\<close>): it reports the fixed status code 123 and
  never returns. The three functions taken from the source are compared with it below.
\<close>

definition on_violation_contract :: "'w env \<Rightarrow> 'w run \<Rightarrow> bool" where
  "on_violation_contract env r = (exit_reports env r = [123] \<and> outcome r = Thread_ended)"

text \<open>
  What the callees of a run reply, read off the environment along the calls of lines 60,
  61 and 63: one of those reached never comes back, or one of them fails its canary check.
\<close>

definition some_never :: "'w env \<Rightarrow> u32 \<Rightarrow> 'w mem \<Rightarrow> bool" where
  "some_never env seed m0 =
     (case libc_init env (m0\<lparr>stack_chk_guard := seed\<rparr>) of
        Never \<Rightarrow> True
      | Smashed mc \<Rightarrow> False
      | Returns u m2 \<Rightarrow>
          (case shield_rand_set_seed env seed m2 of
             Never \<Rightarrow> True
           | Smashed mc \<Rightarrow> False
           | Returns u' m3 \<Rightarrow>
               (case main env m3 of
                  Never \<Rightarrow> True
                | Smashed mc \<Rightarrow> False
                | Returns task_ret m4 \<Rightarrow> False)))"

definition some_smashed :: "'w env \<Rightarrow> u32 \<Rightarrow> 'w mem \<Rightarrow> bool" where
  "some_smashed env seed m0 =
     (case libc_init env (m0\<lparr>stack_chk_guard := seed\<rparr>) of
        Never \<Rightarrow> False
      | Smashed mc \<Rightarrow> True
      | Returns u m2 \<Rightarrow>
          (case shield_rand_set_seed env seed m2 of
             Never \<Rightarrow> False
           | Smashed mc \<Rightarrow> True
           | Returns u' m3 \<Rightarrow>
               (case main env m3 of
                  Never \<Rightarrow> False
                | Smashed mc \<Rightarrow> True
                | Returns task_ret m4 \<Rightarrow> False)))"

text \<open>
  A callee as it is, but for the value it leaves in \<open>__stack_chk_guard\<close> when control
  leaves it.
\<close>

fun leave_guard :: "u32 \<Rightarrow> ('a, 'w) reply \<Rightarrow> ('a, 'w) reply" where
  "leave_guard g (Returns x m) = Returns x (m\<lparr>stack_chk_guard := g\<rparr>)"
| "leave_guard g (Smashed m) = Smashed (m\<lparr>stack_chk_guard := g\<rparr>)"
| "leave_guard g Never = Never"

subsection \<open>Concrete environments\<close>

text \<open>
  An environment for the scenarios of the specification: the rest of memory is the state
  of the random generator, the initializer changes nothing, the seeder stores the seed,
  \<open>main\<close> returns \<open>v\<close>, and the kernel never resumes a thread that exits.
\<close>

definition scenario_env :: "i32 \<Rightarrow> u32 env" where
  "scenario_env v =
     \<lparr>SYSCALL_EXIT = 1,
      libc_init = (\<lambda>m. Returns () m),
      shield_rand_set_seed = (\<lambda>s m. Returns () (m\<lparr>world := s\<rparr>)),
      main = (\<lambda>m. Returns v m),
      sys_exit_returns = (\<lambda>v. False),
      svc_returns = (\<lambda>n r0. False)\<rparr>"

definition scenario_cfg :: "bool \<Rightarrow> config" where
  "scenario_cfg arm = \<lparr>CONFIG_WITH_SENTRY = Some 1, arm_lower = arm, ARM_upper = False\<rparr>"

text \<open>
  The third scenario of the specification: the canary check of \<open>main\<close> fails. Here
  \<open>main\<close> has also cleared the guard, and the kernel resumes the thread after an \<open>svc\<close>.
\<close>

definition scenario_smashed :: "u32 env" where
  "scenario_smashed =
     (scenario_env 0)\<lparr>main := (\<lambda>m. Smashed (m\<lparr>stack_chk_guard := 0\<rparr>)),
                       svc_returns := (\<lambda>n r0. True)\<rparr>"

section \<open>Auxiliary facts\<close>

lemma scenario_env_simps:
  "SYSCALL_EXIT (scenario_env v) = 1"
  "libc_init (scenario_env v) m = Returns () m"
  "shield_rand_set_seed (scenario_env v) s m = Returns () (m\<lparr>world := s\<rparr>)"
  "main (scenario_env v) m = Returns v m"
  "sys_exit_returns (scenario_env v) x = False"
  "svc_returns (scenario_env v) n r0 = False"
  by (simp_all add: scenario_env_def)

lemma violation_eq:
  "violation cfg env tr mc =
     \<lparr>trace = tr @ [if arm_lower cfg then Svc_fail (SYSCALL_EXIT env) 123 else Exit_fail 123],
      outcome = (if (if arm_lower cfg then svc_returns env (SYSCALL_EXIT env) 123
                     else sys_exit_returns env 123)
                 then Undefined_behaviour else Thread_ended)\<rparr>"
  by (simp add: violation_def stack_chk_fail_def stack_chk_fail_arm_def
      stack_chk_fail_portable_def)

lemma start_cases [case_names init_never init_smashed rand_never rand_smashed
    main_never main_smashed main_returns]:
  obtains
    "libc_init env (m\<lparr>stack_chk_guard := s\<rparr>) = Never"
    "start cfg env tid s m =
       \<lparr>trace = [Store_guard s, Call_libc_init (m\<lparr>stack_chk_guard := s\<rparr>)],
        outcome = No_return\<rparr>"
  | mc where
    "libc_init env (m\<lparr>stack_chk_guard := s\<rparr>) = Smashed mc"
    "start cfg env tid s m =
       violation cfg env [Store_guard s, Call_libc_init (m\<lparr>stack_chk_guard := s\<rparr>)] mc"
  | u ma where
    "libc_init env (m\<lparr>stack_chk_guard := s\<rparr>) = Returns u ma"
    "shield_rand_set_seed env s ma = Never"
    "start cfg env tid s m =
       \<lparr>trace = [Store_guard s, Call_libc_init (m\<lparr>stack_chk_guard := s\<rparr>),
                 Call_rand_set_seed s ma],
        outcome = No_return\<rparr>"
  | u ma mc where
    "libc_init env (m\<lparr>stack_chk_guard := s\<rparr>) = Returns u ma"
    "shield_rand_set_seed env s ma = Smashed mc"
    "start cfg env tid s m =
       violation cfg env [Store_guard s, Call_libc_init (m\<lparr>stack_chk_guard := s\<rparr>),
                          Call_rand_set_seed s ma] mc"
  | u ma u' mb where
    "libc_init env (m\<lparr>stack_chk_guard := s\<rparr>) = Returns u ma"
    "shield_rand_set_seed env s ma = Returns u' mb"
    "main env mb = Never"
    "start cfg env tid s m =
       \<lparr>trace = [Store_guard s, Call_libc_init (m\<lparr>stack_chk_guard := s\<rparr>),
                 Call_rand_set_seed s ma, Call_main mb],
        outcome = No_return\<rparr>"
  | u ma u' mb mc where
    "libc_init env (m\<lparr>stack_chk_guard := s\<rparr>) = Returns u ma"
    "shield_rand_set_seed env s ma = Returns u' mb"
    "main env mb = Smashed mc"
    "start cfg env tid s m =
       violation cfg env [Store_guard s, Call_libc_init (m\<lparr>stack_chk_guard := s\<rparr>),
                          Call_rand_set_seed s ma, Call_main mb] mc"
  | u ma u' mb v mc where
    "libc_init env (m\<lparr>stack_chk_guard := s\<rparr>) = Returns u ma"
    "shield_rand_set_seed env s ma = Returns u' mb"
    "main env mb = Returns v mc"
    "start cfg env tid s m =
       \<lparr>trace = [Store_guard s, Call_libc_init (m\<lparr>stack_chk_guard := s\<rparr>),
                 Call_rand_set_seed s ma, Call_main mb, Exit_start v],
        outcome = (if sys_exit_returns env v then Undefined_behaviour else Thread_ended)\<rparr>"
proof (cases "libc_init env (m\<lparr>stack_chk_guard := s\<rparr>)")
  case Never
  then show ?thesis using that(1) by (simp add: start_def)
next
  case (Smashed mc)
  then show ?thesis using that(2) by (simp add: start_def)
next
  case init: (Returns u ma)
  show ?thesis
  proof (cases "shield_rand_set_seed env s ma")
    case Never
    with init show ?thesis using that(3) by (simp add: start_def)
  next
    case (Smashed mc)
    with init show ?thesis using that(4) by (simp add: start_def)
  next
    case rand: (Returns u' mb)
    show ?thesis
    proof (cases "main env mb")
      case Never
      with init rand show ?thesis using that(5) by (simp add: start_def)
    next
      case (Smashed mc)
      with init rand show ?thesis using that(6) by (simp add: start_def)
    next
      case (Returns v mc)
      with init rand show ?thesis using that(7) by (simp add: start_def)
    qed
  qed
qed

lemma start_prior_guard:
  "start cfg env tid s (m\<lparr>stack_chk_guard := g\<rparr>) = start cfg env tid s m"
  by (simp add: start_def)

lemma violation_sentry:
  "violation (cfg\<lparr>CONFIG_WITH_SENTRY := x\<rparr>) env tr mc = violation cfg env tr mc"
  by (simp add: violation_eq)

lemma start_sentry:
  "start (cfg\<lparr>CONFIG_WITH_SENTRY := x\<rparr>) env tid s m = start cfg env tid s m"
  unfolding start_def violation_sentry ..

lemma start_main_leaves_guard:
  "start cfg (env\<lparr>main := (\<lambda>x. leave_guard g (main env x))\<rparr>) tid s m = start cfg env tid s m"
  by (cases rule: start_cases [where env = env and m = m and s = s and cfg = cfg and tid = tid])
    (simp_all add: start_def violation_eq)

section \<open>The claims of the specification\<close>

text \<open>
  Claim C1. For every seed \<open>s\<close>, \<open>_start\<close> called with that seed stores \<open>s\<close> in
  \<open>__stack_chk_guard\<close> before anything else, hence strictly before \<open>main\<close> begins; and when
  the two functions called in between leave the guard alone, \<open>main\<close> is entered with the
  guard equal to \<open>s\<close>.
\<close>

theorem start_guard_set_before_main:
  assumes "preserves_guard (libc_init env)"
    and "preserves_guard (shield_rand_set_seed env s)"
  shows "\<exists>rest. trace (start cfg env tid s m) = Store_guard s # rest
           \<and> (\<forall>m'. Call_main m' \<in> set rest \<longrightarrow> stack_chk_guard m' = s)"
  using assms unfolding preserves_guard_def
  by (cases rule: start_cases [where env = env and m = m and s = s and cfg = cfg and tid = tid]) (auto simp: violation_eq)

text \<open>The statement above at a concrete run, with its hypotheses met.\<close>

theorem start_guard_set_before_main_witness:
  "preserves_guard (libc_init (scenario_env 0))
   \<and> preserves_guard (shield_rand_set_seed (scenario_env 0) 0xDEADBEEF)
   \<and> Call_main \<lparr>stack_chk_guard = 0xDEADBEEF, world = 0xDEADBEEF\<rparr>
        \<in> set (trace (start (scenario_cfg True) (scenario_env 0) 7 0xDEADBEEF (image_load 0)))
   \<and> (\<exists>rest. trace (start (scenario_cfg True) (scenario_env 0) 7 0xDEADBEEF (image_load 0))
                = Store_guard 0xDEADBEEF # rest
              \<and> (\<forall>m'. Call_main m' \<in> set rest \<longrightarrow> stack_chk_guard m' = 0xDEADBEEF))"
proof -
  have a: "preserves_guard (libc_init (scenario_env 0))"
    by (simp add: preserves_guard_def scenario_env_simps)
  have b: "preserves_guard (shield_rand_set_seed (scenario_env 0) 0xDEADBEEF)"
    by (auto simp add: preserves_guard_def scenario_env_simps)
  have c: "Call_main \<lparr>stack_chk_guard = 0xDEADBEEF, world = 0xDEADBEEF\<rparr>
        \<in> set (trace (start (scenario_cfg True) (scenario_env 0) 7 0xDEADBEEF (image_load 0)))"
    by (simp add: start_def Let_def scenario_env_simps image_load_def)
  show ?thesis
    using a b c
      start_guard_set_before_main [OF a b, of "scenario_cfg True" 7 "image_load 0"]
    by simp
qed

text \<open>
  Claim C2. When \<open>main\<close> returns \<open>v\<close>, whatever 32-bit value \<open>v\<close> is, the run holds exactly
  one terminal call, the exit of line 66 with status \<open>v\<close> unchanged; it is the last event
  of the run, and the thread ends there.
\<close>

theorem start_reports_main_status:
  assumes "libc_init env (m\<lparr>stack_chk_guard := s\<rparr>) = Returns u m1"
    and "shield_rand_set_seed env s m1 = Returns u' m2"
    and "main env m2 = Returns v m3"
    and "\<not> sys_exit_returns env v"
  shows "filter is_terminal (trace (start cfg env tid s m)) = [Exit_start v]
         \<and> last (trace (start cfg env tid s m)) = Exit_start v
         \<and> exit_reports env (start cfg env tid s m) = [v]
         \<and> outcome (start cfg env tid s m) = Thread_ended"
  using assms
  by (simp add: start_def is_terminal_def exit_reports_def)

text \<open>The statement above at a concrete run, with its hypotheses met.\<close>

theorem start_reports_main_status_witness:
  "libc_init (scenario_env 42) ((image_load 0)\<lparr>stack_chk_guard := 1\<rparr>)
     = Returns () \<lparr>stack_chk_guard = 1, world = 0\<rparr>
   \<and> shield_rand_set_seed (scenario_env 42) 1 \<lparr>stack_chk_guard = 1, world = 0\<rparr>
     = Returns () \<lparr>stack_chk_guard = 1, world = 1\<rparr>
   \<and> main (scenario_env 42) \<lparr>stack_chk_guard = 1, world = 1\<rparr>
     = Returns 42 \<lparr>stack_chk_guard = 1, world = 1\<rparr>
   \<and> \<not> sys_exit_returns (scenario_env 42) 42
   \<and> filter is_terminal (trace (start (scenario_cfg True) (scenario_env 42) 1 1 (image_load 0)))
     = [Exit_start 42]
   \<and> exit_reports (scenario_env 42) (start (scenario_cfg True) (scenario_env 42) 1 1 (image_load 0))
     = [42]
   \<and> outcome (start (scenario_cfg True) (scenario_env 42) 1 1 (image_load 0)) = Thread_ended"
proof -
  have a: "libc_init (scenario_env 42) ((image_load 0)\<lparr>stack_chk_guard := 1\<rparr>)
     = Returns () \<lparr>stack_chk_guard = 1, world = 0\<rparr>"
    by (simp add: scenario_env_simps image_load_def)
  have b: "shield_rand_set_seed (scenario_env 42) 1 \<lparr>stack_chk_guard = 1, world = 0\<rparr>
     = Returns () \<lparr>stack_chk_guard = 1, world = 1\<rparr>"
    by (simp add: scenario_env_simps)
  have c: "main (scenario_env 42) \<lparr>stack_chk_guard = 1, world = 1\<rparr>
     = Returns 42 \<lparr>stack_chk_guard = 1, world = 1\<rparr>"
    by (simp add: scenario_env_simps)
  have d: "\<not> sys_exit_returns (scenario_env 42) 42"
    by (simp add: scenario_env_simps)
  show ?thesis
    using a b c d start_reports_main_status [OF a b c d, of "scenario_cfg True" 1]
    by simp
qed

text \<open>
  Claim C3. \<open>__stack_chk_fail\<close>, in the variant the build selects, reports status 123 and
  nothing else, does not return, and does the same from every memory it is entered with;
  its single event is the report, so no user code follows.
\<close>

theorem stack_chk_fail_fixed_status:
  assumes "\<not> kernel_exit_returns env 123"
  shows "exit_reports env (stack_chk_fail cfg env m) = [123]
         \<and> length (trace (stack_chk_fail cfg env m)) = 1
         \<and> outcome (stack_chk_fail cfg env m) = Thread_ended
         \<and> stack_chk_fail cfg env m' = stack_chk_fail cfg env m"
  using assms
  by (simp add: stack_chk_fail_def stack_chk_fail_arm_def stack_chk_fail_portable_def
      kernel_exit_returns_def exit_reports_def)

text \<open>The statement above at a concrete run, with its hypotheses met.\<close>

theorem stack_chk_fail_fixed_status_witness:
  "\<not> kernel_exit_returns (scenario_env 0) 123
   \<and> exit_reports (scenario_env 0)
        (stack_chk_fail (scenario_cfg True) (scenario_env 0) \<lparr>stack_chk_guard = 5, world = 9\<rparr>)
      = [123]
   \<and> trace (stack_chk_fail (scenario_cfg True) (scenario_env 0) \<lparr>stack_chk_guard = 5, world = 9\<rparr>)
      = [Svc_fail 1 123]
   \<and> trace (stack_chk_fail (scenario_cfg False) (scenario_env 0) \<lparr>stack_chk_guard = 5, world = 9\<rparr>)
      = [Exit_fail 123]
   \<and> outcome (stack_chk_fail (scenario_cfg True) (scenario_env 0) \<lparr>stack_chk_guard = 5, world = 9\<rparr>)
      = Thread_ended"
proof -
  have a: "\<not> kernel_exit_returns (scenario_env 0) 123"
    by (simp add: kernel_exit_returns_def scenario_env_simps)
  have b: "trace (stack_chk_fail (scenario_cfg True) (scenario_env 0) \<lparr>stack_chk_guard = 5, world = 9\<rparr>)
      = [Svc_fail 1 123]"
    by (simp add: stack_chk_fail_def stack_chk_fail_arm_def scenario_cfg_def scenario_env_simps)
  have c: "trace (stack_chk_fail (scenario_cfg False) (scenario_env 0) \<lparr>stack_chk_guard = 5, world = 9\<rparr>)
      = [Exit_fail 123]"
    by (simp add: stack_chk_fail_def stack_chk_fail_portable_def scenario_cfg_def)
  show ?thesis
    using a b c
      stack_chk_fail_fixed_status [OF a, of "scenario_cfg True" "\<lparr>stack_chk_guard = 5, world = 9\<rparr>"]
    by simp
qed

text \<open>
  Claim C4. In every run the events of \<open>_start\<close> occur in the order of the source, each at
  most once. When the three callees return, the run is exactly: the store of the seed, the
  call of \<open>__libc_init\<close>, the call of \<open>__shield_rand_set_seed\<close> with the same seed on the
  memory the initializer returned, the call of \<open>main\<close> on the memory the seeder returned,
  and the exit with the value \<open>main\<close> returned.
\<close>

theorem start_bootstrap_order:
  "sorted_wrt (<) (map bootstrap_step (trace (start cfg env tid s m)))
   \<and> (libc_init env (m\<lparr>stack_chk_guard := s\<rparr>) = Returns u ma
        \<and> shield_rand_set_seed env s ma = Returns u' mb
        \<and> main env mb = Returns v mc
       \<longrightarrow> trace (start cfg env tid s m) =
             [Store_guard s,
              Call_libc_init (m\<lparr>stack_chk_guard := s\<rparr>),
              Call_rand_set_seed s ma,
              Call_main mb,
              Exit_start v])"
  by (cases rule: start_cases [where env = env and m = m and s = s and cfg = cfg and tid = tid])
    (auto simp: violation_eq)

text \<open>The statement above at a concrete run, with its hypotheses met.\<close>

theorem start_bootstrap_order_witness:
  "libc_init (scenario_env 0) ((image_load 0)\<lparr>stack_chk_guard := 0xDEADBEEF\<rparr>)
     = Returns () \<lparr>stack_chk_guard = 0xDEADBEEF, world = 0\<rparr>
   \<and> shield_rand_set_seed (scenario_env 0) 0xDEADBEEF \<lparr>stack_chk_guard = 0xDEADBEEF, world = 0\<rparr>
     = Returns () \<lparr>stack_chk_guard = 0xDEADBEEF, world = 0xDEADBEEF\<rparr>
   \<and> main (scenario_env 0) \<lparr>stack_chk_guard = 0xDEADBEEF, world = 0xDEADBEEF\<rparr>
     = Returns 0 \<lparr>stack_chk_guard = 0xDEADBEEF, world = 0xDEADBEEF\<rparr>
   \<and> trace (start (scenario_cfg False) (scenario_env 0) 7 0xDEADBEEF (image_load 0)) =
       [Store_guard 0xDEADBEEF,
        Call_libc_init \<lparr>stack_chk_guard = 0xDEADBEEF, world = 0\<rparr>,
        Call_rand_set_seed 0xDEADBEEF \<lparr>stack_chk_guard = 0xDEADBEEF, world = 0\<rparr>,
        Call_main \<lparr>stack_chk_guard = 0xDEADBEEF, world = 0xDEADBEEF\<rparr>,
        Exit_start 0]"
proof -
  have a: "libc_init (scenario_env 0) ((image_load 0)\<lparr>stack_chk_guard := 0xDEADBEEF\<rparr>)
     = Returns () \<lparr>stack_chk_guard = 0xDEADBEEF, world = 0\<rparr>"
    by (simp add: scenario_env_simps image_load_def)
  have b: "shield_rand_set_seed (scenario_env 0) 0xDEADBEEF \<lparr>stack_chk_guard = 0xDEADBEEF, world = 0\<rparr>
     = Returns () \<lparr>stack_chk_guard = 0xDEADBEEF, world = 0xDEADBEEF\<rparr>"
    by (simp add: scenario_env_simps)
  have c: "main (scenario_env 0) \<lparr>stack_chk_guard = 0xDEADBEEF, world = 0xDEADBEEF\<rparr>
     = Returns 0 \<lparr>stack_chk_guard = 0xDEADBEEF, world = 0xDEADBEEF\<rparr>"
    by (simp add: scenario_env_simps)
  show ?thesis
    using a b c
      start_bootstrap_order [where cfg = "scenario_cfg False" and env = "scenario_env 0"
        and tid = 7 and s = "0xDEADBEEF" and m = "image_load 0"
        and ma = "\<lparr>stack_chk_guard = 0xDEADBEEF, world = 0\<rparr>"
        and mb = "\<lparr>stack_chk_guard = 0xDEADBEEF, world = 0xDEADBEEF\<rparr>"
        and v = 0 and mc = "\<lparr>stack_chk_guard = 0xDEADBEEF, world = 0xDEADBEEF\<rparr>"]
    by (simp add: image_load_def)
qed

text \<open>
  Claim C5 says that exactly one terminal call occurs in every invocation. A \<open>main\<close>
  that never returns is entered by \<open>_start\<close> like any other, and line 66 is then never
  reached: the run holds no terminal call.
\<close>

theorem start_exactly_one_terminal_counterexample:
  "length (filter is_terminal
     (trace (start (scenario_cfg True) ((scenario_env 0)\<lparr>main := (\<lambda>m. Never)\<rparr>)
               7 0xDEADBEEF (image_load 0)))) \<noteq> 1"
  by (simp add: start_def Let_def scenario_env_def is_terminal_def)

text \<open>
  Claim C5, amended. Every invocation of \<open>_start\<close> issues at most one terminal call:
  exactly one unless a callee never returns, and none in that case. It is the violation
  report, with status 123, exactly when a callee fails its canary check, and the normal
  exit otherwise; the two never occur in the same run. The terminal call is the last event
  of the run, \<open>_start\<close> never returns to its caller, and control leaves defined code only
  if the kernel resumes the thread after the exit that was reported.
\<close>

theorem start_terminal_calls:
  "length (filter is_terminal (trace (start cfg env tid s m)))
     = (if some_never env s m then 0 else 1)
   \<and> length (filter is_violation_report (trace (start cfg env tid s m)))
     = (if some_smashed env s m then 1 else 0)
   \<and> length (filter is_normal_exit (trace (start cfg env tid s m)))
     = (if some_never env s m \<or> some_smashed env s m then 0 else 1)
   \<and> (filter is_normal_exit (trace (start cfg env tid s m)) = []
        \<or> filter is_violation_report (trace (start cfg env tid s m)) = [])
   \<and> filter is_terminal (butlast (trace (start cfg env tid s m))) = []
   \<and> is_terminal (last (trace (start cfg env tid s m))) = (\<not> some_never env s m)
   \<and> (some_smashed env s m \<longrightarrow> exit_reports env (start cfg env tid s m) = [123])
   \<and> outcome (start cfg env tid s m) \<noteq> Returned
   \<and> (outcome (start cfg env tid s m) = No_return) = some_never env s m
   \<and> (outcome (start cfg env tid s m) = Undefined_behaviour \<longrightarrow>
        (\<exists>v \<in> set (exit_reports env (start cfg env tid s m)). kernel_exit_returns env v))"
  by (cases rule: start_cases [where env = env and m = m and s = s and cfg = cfg and tid = tid])
    (simp_all add: violation_eq is_terminal_def exit_reports_def kernel_exit_returns_def
      some_never_def some_smashed_def)

text \<open>
  The statement above at two concrete runs: the canary check of \<open>main\<close> fails and the
  kernel resumes the thread after the report; and \<open>main\<close> returns 42.
\<close>

theorem start_terminal_calls_witness:
  "some_smashed scenario_smashed 0xDEADBEEF (image_load 0)
   \<and> \<not> some_never scenario_smashed 0xDEADBEEF (image_load 0)
   \<and> trace (start (scenario_cfg True) scenario_smashed 7 0xDEADBEEF (image_load 0)) =
       [Store_guard 0xDEADBEEF,
        Call_libc_init \<lparr>stack_chk_guard = 0xDEADBEEF, world = 0\<rparr>,
        Call_rand_set_seed 0xDEADBEEF \<lparr>stack_chk_guard = 0xDEADBEEF, world = 0\<rparr>,
        Call_main \<lparr>stack_chk_guard = 0xDEADBEEF, world = 0xDEADBEEF\<rparr>,
        Svc_fail 1 123]
   \<and> outcome (start (scenario_cfg True) scenario_smashed 7 0xDEADBEEF (image_load 0))
       = Undefined_behaviour
   \<and> length (filter is_terminal
        (trace (start (scenario_cfg True) scenario_smashed 7 0xDEADBEEF (image_load 0)))) = 1
   \<and> length (filter is_violation_report
        (trace (start (scenario_cfg True) scenario_smashed 7 0xDEADBEEF (image_load 0)))) = 1
   \<and> filter is_normal_exit
        (trace (start (scenario_cfg True) scenario_smashed 7 0xDEADBEEF (image_load 0))) = []
   \<and> exit_reports scenario_smashed
        (start (scenario_cfg True) scenario_smashed 7 0xDEADBEEF (image_load 0)) = [123]
   \<and> (\<exists>v \<in> set (exit_reports scenario_smashed
          (start (scenario_cfg True) scenario_smashed 7 0xDEADBEEF (image_load 0))).
        kernel_exit_returns scenario_smashed v)
   \<and> \<not> some_smashed (scenario_env 42) 1 (image_load 0)
   \<and> \<not> some_never (scenario_env 42) 1 (image_load 0)
   \<and> filter is_terminal (trace (start (scenario_cfg True) (scenario_env 42) 1 1 (image_load 0)))
       = [Exit_start 42]
   \<and> length (filter is_normal_exit
        (trace (start (scenario_cfg True) (scenario_env 42) 1 1 (image_load 0)))) = 1"
proof -
  have a: "some_smashed scenario_smashed 0xDEADBEEF (image_load 0)"
    by (simp add: some_smashed_def scenario_smashed_def scenario_env_def)
  have b: "\<not> some_never scenario_smashed 0xDEADBEEF (image_load 0)"
    by (simp add: some_never_def scenario_smashed_def scenario_env_def)
  have c: "trace (start (scenario_cfg True) scenario_smashed 7 0xDEADBEEF (image_load 0)) =
       [Store_guard 0xDEADBEEF,
        Call_libc_init \<lparr>stack_chk_guard = 0xDEADBEEF, world = 0\<rparr>,
        Call_rand_set_seed 0xDEADBEEF \<lparr>stack_chk_guard = 0xDEADBEEF, world = 0\<rparr>,
        Call_main \<lparr>stack_chk_guard = 0xDEADBEEF, world = 0xDEADBEEF\<rparr>,
        Svc_fail 1 123]"
    by (simp add: start_def Let_def violation_eq scenario_smashed_def scenario_env_def
        scenario_cfg_def image_load_def)
  have d: "outcome (start (scenario_cfg True) scenario_smashed 7 0xDEADBEEF (image_load 0))
       = Undefined_behaviour"
    by (simp add: start_def Let_def violation_eq scenario_smashed_def scenario_env_def
        scenario_cfg_def)
  have e: "\<not> some_smashed (scenario_env 42) 1 (image_load 0)"
    by (simp add: some_smashed_def scenario_env_simps)
  have f: "\<not> some_never (scenario_env 42) 1 (image_load 0)"
    by (simp add: some_never_def scenario_env_simps)
  have g: "filter is_terminal (trace (start (scenario_cfg True) (scenario_env 42) 1 1 (image_load 0)))
       = [Exit_start 42]"
    by (simp add: start_def Let_def scenario_env_simps is_terminal_def)
  have h: "kernel_exit_returns scenario_smashed 123"
    by (simp add: kernel_exit_returns_def scenario_smashed_def)
  show ?thesis
    using a b c d e f g h
      start_terminal_calls [of "scenario_cfg True" scenario_smashed 7 "0xDEADBEEF" "image_load 0"]
      start_terminal_calls [of "scenario_cfg True" "scenario_env 42" 1 1 "image_load 0"]
    by simp
qed

text \<open>
  Claim C6. \<open>__stack_chk_guard\<close> is zero in the loaded image; a run of \<open>_start\<close> stores to
  it exactly once, the seed, as its first event and so before any callee is entered.
  \<open>_start\<close> never reads it: the run does not depend on the value the guard had before the
  store, nor on the value \<open>main\<close> leaves in it, and whatever the callees leave in it the
  run is the one fixed by their replies. After the store \<open>_start\<close> hands each callee the
  very memory the previous one returned.
\<close>

theorem stack_chk_guard_written_once:
  "stack_chk_guard (image_load w) = 0
   \<and> filter is_store (trace (start cfg env tid s m)) = [Store_guard s]
   \<and> hd (trace (start cfg env tid s m)) = Store_guard s
   \<and> start cfg env tid s (m\<lparr>stack_chk_guard := g\<rparr>) = start cfg env tid s m
   \<and> (libc_init env (m\<lparr>stack_chk_guard := s\<rparr>) = Returns u ma \<longrightarrow>
        Call_rand_set_seed s ma \<in> set (trace (start cfg env tid s m))
        \<and> (shield_rand_set_seed env s ma = Returns u' mb \<longrightarrow>
             Call_main mb \<in> set (trace (start cfg env tid s m))
             \<and> (main env mb = Returns v mc \<longrightarrow>
                  start cfg env tid s m =
                    \<lparr>trace = [Store_guard s, Call_libc_init (m\<lparr>stack_chk_guard := s\<rparr>),
                              Call_rand_set_seed s ma, Call_main mb, Exit_start v],
                     outcome = (if sys_exit_returns env v
                                then Undefined_behaviour else Thread_ended)\<rparr>)))
   \<and> start cfg (env\<lparr>main := (\<lambda>x. leave_guard g' (main env x))\<rparr>) tid s m
       = start cfg env tid s m"
proof -
  have "start cfg (env\<lparr>main := (\<lambda>x. leave_guard g' (main env x))\<rparr>) tid s m
       = start cfg env tid s m"
    by (rule start_main_leaves_guard)
  then show ?thesis
    by (cases rule: start_cases [where env = env and m = m and s = s and cfg = cfg and tid = tid])
      (auto simp: violation_eq image_load_def start_prior_guard)
qed

text \<open>
  The statement above at a concrete run, and at the same run with a \<open>main\<close> that leaves
  99 in the guard: the exit status is still the 42 that \<open>main\<close> returned.
\<close>

theorem stack_chk_guard_written_once_witness:
  "stack_chk_guard (image_load (0::u32)) = 0
   \<and> libc_init (scenario_env 42) ((image_load 0)\<lparr>stack_chk_guard := 0xDEADBEEF\<rparr>)
       = Returns () \<lparr>stack_chk_guard = 0xDEADBEEF, world = 0\<rparr>
   \<and> shield_rand_set_seed (scenario_env 42) 0xDEADBEEF \<lparr>stack_chk_guard = 0xDEADBEEF, world = 0\<rparr>
       = Returns () \<lparr>stack_chk_guard = 0xDEADBEEF, world = 0xDEADBEEF\<rparr>
   \<and> main (scenario_env 42) \<lparr>stack_chk_guard = 0xDEADBEEF, world = 0xDEADBEEF\<rparr>
       = Returns 42 \<lparr>stack_chk_guard = 0xDEADBEEF, world = 0xDEADBEEF\<rparr>
   \<and> filter is_store (trace (start (scenario_cfg True) (scenario_env 42) 7 0xDEADBEEF (image_load 0)))
       = [Store_guard 0xDEADBEEF]
   \<and> start (scenario_cfg True) (scenario_env 42) 7 0xDEADBEEF (image_load 0) =
       \<lparr>trace = [Store_guard 0xDEADBEEF,
                 Call_libc_init \<lparr>stack_chk_guard = 0xDEADBEEF, world = 0\<rparr>,
                 Call_rand_set_seed 0xDEADBEEF \<lparr>stack_chk_guard = 0xDEADBEEF, world = 0\<rparr>,
                 Call_main \<lparr>stack_chk_guard = 0xDEADBEEF, world = 0xDEADBEEF\<rparr>,
                 Exit_start 42],
        outcome = Thread_ended\<rparr>
   \<and> main ((scenario_env 42)\<lparr>main := (\<lambda>x. leave_guard 99 (main (scenario_env 42) x))\<rparr>)
        \<lparr>stack_chk_guard = 0xDEADBEEF, world = 0xDEADBEEF\<rparr>
       = Returns 42 \<lparr>stack_chk_guard = 99, world = 0xDEADBEEF\<rparr>
   \<and> start (scenario_cfg True)
        ((scenario_env 42)\<lparr>main := (\<lambda>x. leave_guard 99 (main (scenario_env 42) x))\<rparr>)
        7 0xDEADBEEF (image_load 0) =
       \<lparr>trace = [Store_guard 0xDEADBEEF,
                 Call_libc_init \<lparr>stack_chk_guard = 0xDEADBEEF, world = 0\<rparr>,
                 Call_rand_set_seed 0xDEADBEEF \<lparr>stack_chk_guard = 0xDEADBEEF, world = 0\<rparr>,
                 Call_main \<lparr>stack_chk_guard = 0xDEADBEEF, world = 0xDEADBEEF\<rparr>,
                 Exit_start 42],
        outcome = Thread_ended\<rparr>"
proof -
  have a: "libc_init (scenario_env 42) ((image_load 0)\<lparr>stack_chk_guard := 0xDEADBEEF\<rparr>)
       = Returns () \<lparr>stack_chk_guard = 0xDEADBEEF, world = 0\<rparr>"
    by (simp add: scenario_env_simps image_load_def)
  have b: "shield_rand_set_seed (scenario_env 42) 0xDEADBEEF \<lparr>stack_chk_guard = 0xDEADBEEF, world = 0\<rparr>
       = Returns () \<lparr>stack_chk_guard = 0xDEADBEEF, world = 0xDEADBEEF\<rparr>"
    by (simp add: scenario_env_simps)
  have c: "main (scenario_env 42) \<lparr>stack_chk_guard = 0xDEADBEEF, world = 0xDEADBEEF\<rparr>
       = Returns 42 \<lparr>stack_chk_guard = 0xDEADBEEF, world = 0xDEADBEEF\<rparr>"
    by (simp add: scenario_env_simps)
  have d: "main ((scenario_env 42)\<lparr>main := (\<lambda>x. leave_guard 99 (main (scenario_env 42) x))\<rparr>)
        \<lparr>stack_chk_guard = 0xDEADBEEF, world = 0xDEADBEEF\<rparr>
       = Returns 42 \<lparr>stack_chk_guard = 99, world = 0xDEADBEEF\<rparr>"
    by (simp add: scenario_env_simps)
  have e: "\<not> sys_exit_returns (scenario_env 42) 42"
    by (simp add: scenario_env_simps)
  show ?thesis
    using a b c d e
      stack_chk_guard_written_once [where w = "0::u32" and cfg = "scenario_cfg True"
        and env = "scenario_env 42" and tid = 7 and s = "0xDEADBEEF" and m = "image_load 0"
        and ma = "\<lparr>stack_chk_guard = 0xDEADBEEF, world = 0\<rparr>"
        and mb = "\<lparr>stack_chk_guard = 0xDEADBEEF, world = 0xDEADBEEF\<rparr>"
        and v = 42 and mc = "\<lparr>stack_chk_guard = 0xDEADBEEF, world = 0xDEADBEEF\<rparr>"
        and g' = 99]
    by (simp add: image_load_def)
qed

text \<open>
  Claim C7 says that \<open>thread_id\<close> is forwarded to the runtime initializer. For the thread
  identifiers 7 and 1 the initializer is entered once, with the same memory, in which there
  is the seed and no thread identifier.
\<close>

theorem thread_id_forwarded_counterexample:
  "(7::u32) \<noteq> 1
   \<and> filter is_call_libc_init
        (trace (start (scenario_cfg True) (scenario_env 0) 7 0xDEADBEEF (image_load 0)))
      = [Call_libc_init \<lparr>stack_chk_guard = 0xDEADBEEF, world = 0\<rparr>]
   \<and> filter is_call_libc_init
        (trace (start (scenario_cfg True) (scenario_env 0) 1 0xDEADBEEF (image_load 0)))
      = [Call_libc_init \<lparr>stack_chk_guard = 0xDEADBEEF, world = 0\<rparr>]"
  by (simp add: start_def Let_def scenario_env_simps image_load_def)

text \<open>
  Claim C7, amended. \<open>_start\<close> receives \<open>thread_id\<close> and does not forward it:
  \<open>__libc_init\<close> is called exactly once, with no argument, on the memory that the store of
  the seed produced, whatever \<open>thread_id\<close> is.
\<close>

theorem libc_init_called_without_thread_id:
  "filter is_call_libc_init (trace (start cfg env tid s m))
     = [Call_libc_init (m\<lparr>stack_chk_guard := s\<rparr>)]"
  by (cases rule: start_cases [where env = env and m = m and s = s and cfg = cfg and tid = tid])
    (simp_all add: violation_eq)

text \<open>
  Claim C8. The \<open>svc\<close> variant, the \<open>__sys_exit\<close> variant and the inline function of
  ssp.h all meet the contract of the specification: each reports the one status 123 and does
  not return. The function of ssp.h, where the build has it, does what the \<open>svc\<close>
  variant does.
\<close>

theorem stack_chk_fail_variants_agree:
  assumes "\<not> kernel_exit_returns env 123"
  shows "on_violation_contract env (stack_chk_fail_arm env m)
         \<and> on_violation_contract env (stack_chk_fail_portable env m)
         \<and> on_violation_contract env (ssp_h_stack_chk_fail env m)
         \<and> exit_reports env (stack_chk_fail_arm env m)
             = exit_reports env (stack_chk_fail_portable env m)
         \<and> ssp_h_stack_chk_fail env m = stack_chk_fail_arm env m
         \<and> (case ssp_h cfg of None \<Rightarrow> True
             | Some f \<Rightarrow> f env m = stack_chk_fail_arm env m)"
  using assms
  by (simp add: on_violation_contract_def exit_reports_def kernel_exit_returns_def
      stack_chk_fail_arm_def stack_chk_fail_portable_def ssp_h_stack_chk_fail_def ssp_h_def)

text \<open>The statement above at a concrete run, with its hypotheses met.\<close>

theorem stack_chk_fail_variants_agree_witness:
  "\<not> kernel_exit_returns (scenario_env 0) 123
   \<and> on_violation_contract (scenario_env 0)
        (stack_chk_fail_arm (scenario_env 0) (image_load 0))
   \<and> on_violation_contract (scenario_env 0)
        (stack_chk_fail_portable (scenario_env 0) (image_load 0))
   \<and> on_violation_contract (scenario_env 0)
        (ssp_h_stack_chk_fail (scenario_env 0) (image_load 0))
   \<and> exit_reports (scenario_env 0) (stack_chk_fail_portable (scenario_env 0) (image_load 0))
       = [123]"
proof -
  have a: "\<not> kernel_exit_returns (scenario_env 0) 123"
    by (simp add: kernel_exit_returns_def scenario_env_simps)
  have b: "exit_reports (scenario_env 0) (stack_chk_fail_portable (scenario_env 0) (image_load 0))
       = [123]"
    by (simp add: exit_reports_def stack_chk_fail_portable_def)
  show ?thesis
    using a b stack_chk_fail_variants_agree [OF a, where m = "image_load 0"]
    by simp
qed

text \<open>
  Claim C9. With no supported backend selected (\<open>CONFIG_WITH_SENTRY\<close> undefined or 0)
  the translation of thread_init.c stops with the error and yields no program; with the
  backend selected it yields \<open>_start\<close>, whose runs do not depend on the value of the
  selector.
\<close>

theorem unsupported_backend_fails_build:
  fixes env :: "'w env"
  shows "(\<not> with_sentry cfg \<longrightarrow>
            (thread_init_c cfg :: build_error + ('w env \<Rightarrow> u32 \<Rightarrow> u32 \<Rightarrow> 'w mem \<Rightarrow> 'w run))
              = Inl No_supported_backend)
         \<and> (with_sentry cfg \<longrightarrow>
              (thread_init_c cfg :: build_error + ('w env \<Rightarrow> u32 \<Rightarrow> u32 \<Rightarrow> 'w mem \<Rightarrow> 'w run))
                = Inr (start cfg))
         \<and> start (cfg\<lparr>CONFIG_WITH_SENTRY := x\<rparr>) env tid s m = start cfg env tid s m"
  by (simp add: thread_init_c_def start_sentry)

text \<open>The statement above at a concrete run, with its hypotheses met.\<close>

theorem unsupported_backend_fails_build_witness:
  "\<not> with_sentry \<lparr>CONFIG_WITH_SENTRY = None, arm_lower = True, ARM_upper = False\<rparr>
   \<and> \<not> with_sentry \<lparr>CONFIG_WITH_SENTRY = Some 0, arm_lower = True, ARM_upper = False\<rparr>
   \<and> with_sentry (scenario_cfg True)
   \<and> (thread_init_c \<lparr>CONFIG_WITH_SENTRY = None, arm_lower = True, ARM_upper = False\<rparr>
        :: build_error + (u32 env \<Rightarrow> u32 \<Rightarrow> u32 \<Rightarrow> u32 mem \<Rightarrow> u32 run))
       = Inl No_supported_backend
   \<and> (thread_init_c \<lparr>CONFIG_WITH_SENTRY = Some 0, arm_lower = True, ARM_upper = False\<rparr>
        :: build_error + (u32 env \<Rightarrow> u32 \<Rightarrow> u32 \<Rightarrow> u32 mem \<Rightarrow> u32 run))
       = Inl No_supported_backend
   \<and> (thread_init_c (scenario_cfg True)
        :: build_error + (u32 env \<Rightarrow> u32 \<Rightarrow> u32 \<Rightarrow> u32 mem \<Rightarrow> u32 run))
       = Inr (start (scenario_cfg True))"
proof -
  have a: "\<not> with_sentry \<lparr>CONFIG_WITH_SENTRY = None, arm_lower = True, ARM_upper = False\<rparr>"
    by (simp add: with_sentry_def)
  have b: "\<not> with_sentry \<lparr>CONFIG_WITH_SENTRY = Some 0, arm_lower = True, ARM_upper = False\<rparr>"
    by (simp add: with_sentry_def)
  have c: "with_sentry (scenario_cfg True)"
    by (simp add: with_sentry_def scenario_cfg_def)
  show ?thesis
    using a b c
      unsupported_backend_fails_build
        [where cfg = "\<lparr>CONFIG_WITH_SENTRY = None, arm_lower = True, ARM_upper = False\<rparr>"
           and env = "scenario_env 0"]
      unsupported_backend_fails_build
        [where cfg = "\<lparr>CONFIG_WITH_SENTRY = Some 0, arm_lower = True, ARM_upper = False\<rparr>"
           and env = "scenario_env 0"]
      unsupported_backend_fails_build [where cfg = "scenario_cfg True" and env = "scenario_env 0"]
    by simp
qed

text \<open>
  Claim C10. The run of \<open>_start\<close>, that is the store to the guard, the calls with their
  arguments and memories, the exit status and the outcome, is the same for any two thread
  identifiers.
\<close>

theorem start_thread_id_unused:
  "start cfg env t1 s m = start cfg env t2 s m"
  by (simp add: start_def)

end
